theory Spec2Isabelle
  imports Complex_Main "HOL-Library.Multiset"
begin

section \<open>Numbers\<close>

text \<open>
  The program's \<open>number\<close> values are modelled as finite real numbers: arithmetic and
  comparisons are exact, and the non-finite results of a division by zero are a separate
  value (\<open>None\<close>). Decimal literals of the source denote the rationals they spell.
\<close>

text \<open>
  \<open>parseFloat(x.toFixed(d))\<close>: the number denoted by the digit string that \<open>toFixed\<close>
  prints. \<open>toFixed\<close> takes the integer \<open>n\<close> with \<open>n / 10^d\<close> nearest to \<open>\<bar>x\<bar>\<close>, the larger
  one of two, and prints the sign in front; from \<open>10^21\<close> on it prints the number itself.
\<close>

definition toFixed :: "nat \<Rightarrow> real \<Rightarrow> real" where
  "toFixed d x =
     (if 10 ^ 21 \<le> \<bar>x\<bar> then x
      else if x < 0 then - (of_int \<lfloor>(- x) * 10 ^ d + 1 / 2\<rfloor> / 10 ^ d)
      else of_int \<lfloor>x * 10 ^ d + 1 / 2\<rfloor> / 10 ^ d)"

text \<open>
  \<open>a / b\<close> on numbers: \<open>None\<close> stands for the results that are not finite numbers
  (\<open>NaN\<close> for \<open>0 / 0\<close>, an infinity otherwise), which only a zero divisor produces here.
\<close>

definition js_div :: "real \<Rightarrow> real \<Rightarrow> real option" where
  "js_div a b = (if b = 0 then None else Some (a / b))"

section \<open>Data model (\<open>services/api/types.ts\<close>)\<close>

record PredictionRequest =
  region :: string
  latency_ms :: real
  packet_loss :: real
  temperature :: real
  wind_speed :: real
  humidity :: real

record ContributingFactor =
  name :: string
  impact :: real

record PredictionResult =
  downtime_probability :: real
  threshold :: real
  alert_triggered :: bool
  contributing_factors :: "ContributingFactor list option"
  recommendation :: "string option"

section \<open>The mock scorer (\<open>calculateMockProbability\<close>)\<close>

text \<open>
  The body of \<open>calculateMockProbability\<close> is cut at the points the properties below
  speak about. \<open>rawProbability\<close> is the variable \<open>probability\<close> after the weighted terms
  and the three flat penalties, before the first clamp.
\<close>

definition rawProbability :: "PredictionRequest \<Rightarrow> real" where
  "rawProbability values =
     (let probability = 0;
          probability = probability + (latency_ms values / 1000) * (3 / 10);
          probability = probability + (packet_loss values / 100) * (3 / 10);
          probability = (if temperature values > 35 \<or> temperature values < 0
                         then probability + 15 / 100 else probability);
          probability = (if humidity values > 90 then probability + 1 / 10 else probability);
          probability = (if wind_speed values > 20 then probability + 15 / 100 else probability)
      in probability)"

text \<open>\<open>probability = Math.max(0, Math.min(1, probability))\<close>, the first clamp.\<close>

definition preJitterProbability :: "PredictionRequest \<Rightarrow> real" where
  "preJitterProbability values = max 0 (min 1 (rawProbability values))"

text \<open>
  \<open>(Math.random() * 0.2) - 0.1\<close>, where \<open>rnd\<close> is the number \<open>Math.random()\<close> returned.
  \<open>Math.random\<close> returns a number in \<open>[0, 1)\<close>, which puts the jitter in \<open>[-0.1, 0.1)\<close>.
\<close>

definition jitter :: "real \<Rightarrow> real" where
  "jitter rnd = (rnd * (2 / 10)) - 1 / 10"

text \<open>The value of \<open>probability\<close> after the second clamp, when the result is built.\<close>

definition jitteredProbability :: "PredictionRequest \<Rightarrow> real \<Rightarrow> real" where
  "jitteredProbability values rnd =
     (let probability = preJitterProbability values;
          probability = probability + jitter rnd
      in max 0 (min 1 probability))"

definition calculateMockProbability :: "PredictionRequest \<Rightarrow> real \<Rightarrow> PredictionResult" where
  "calculateMockProbability values rnd =
     (let probability = jitteredProbability values rnd;
          threshold = 7 / 10
      in \<lparr> downtime_probability = toFixed 2 probability,
           threshold = threshold,
           alert_triggered = (probability > threshold),
           contributing_factors = Some
             [\<lparr> name = ''Network Latency'', impact = 35 / 100 \<rparr>,
              \<lparr> name = ''Packet Loss'', impact = 30 / 100 \<rparr>,
              \<lparr> name = ''Environmental Conditions'', impact = 25 / 100 \<rparr>],
           recommendation = Some
             ''Consider network path optimization and environmental controls.'' \<rparr>)"

section \<open>The city risk view (\<open>CityPredictions\<close>)\<close>

text \<open>
  A \<open>Record<string, number>\<close> is the list of its entries in the order \<open>Object.entries\<close>
  enumerates them.
\<close>

type_synonym CityProbabilityMap = "(string \<times> real) list"

text \<open>
  \<open>Array.prototype.sort(compareFn)\<close> is the language's, modelled by its contract: the sort
  is stable, and \<open>a\<close> stays in front of \<open>b\<close> unless \<open>compareFn(a, b) > 0\<close>. Each element
  is inserted into the sorted rest of the array, in front of the first element it may
  precede.
\<close>

fun insert_by :: "('a \<Rightarrow> 'a \<Rightarrow> real) \<Rightarrow> 'a \<Rightarrow> 'a list \<Rightarrow> 'a list" where
  "insert_by compareFn x [] = [x]"
| "insert_by compareFn x (y # ys) =
     (if compareFn x y \<le> 0 then x # y # ys else y # insert_by compareFn x ys)"

definition Array_sort :: "('a \<Rightarrow> 'a \<Rightarrow> real) \<Rightarrow> 'a list \<Rightarrow> 'a list" where
  "Array_sort compareFn xs = foldr (insert_by compareFn) xs []"

text \<open>The comparator \<open>(a, b) => b[1] - a[1]\<close>.\<close>

definition byProbability :: "string \<times> real \<Rightarrow> string \<times> real \<Rightarrow> real" where
  "byProbability a b = snd b - snd a"

text \<open>The \<open>if\<close> chain that sets \<open>riskLevel\<close> and \<open>barColor\<close>.\<close>

definition classifyRisk :: "real \<Rightarrow> string \<times> string" where
  "classifyRisk probability =
     (if probability > 6 / 1000 then (''Higher Risk'', ''bg-red-500'')
      else if probability > 4 / 1000 then (''Moderate Risk'', ''bg-amber-500'')
      else (''Lower Risk'', ''bg-emerald-500''))"

text \<open>
  What one city's card shows. \<open>percentage\<close> is the number the text
  \<open>(probability * 100).toFixed(4)\<close> spells; \<open>barFraction\<close> is
  \<open>probability / maxProbability\<close> and \<open>barWidth\<close> that times 100, the bar's width in
  percent; \<open>pinColor\<close> is the class of the map pin; \<open>showWarning\<close> says whether the
  instability note is rendered. The badge and the percentage text are coloured by the
  same two comparisons as \<open>riskLevel\<close> and are left out.
\<close>

record CityRow =
  cityName :: string
  probability :: real
  percentage :: real
  riskLevel :: string
  barColor :: string
  pinColor :: string
  barFraction :: "real option"
  barWidth :: "real option"
  showWarning :: bool

definition cityRow :: "real \<Rightarrow> string \<times> real \<Rightarrow> CityRow" where
  "cityRow maxProbability entry =
     (let c = fst entry; p = snd entry
      in \<lparr> cityName = c,
           probability = p,
           percentage = toFixed 4 (p * 100),
           riskLevel = fst (classifyRisk p),
           barColor = snd (classifyRisk p),
           pinColor = (if p > 5 / 1000 then ''text-amber-500'' else ''text-emerald-500''),
           barFraction = js_div p maxProbability,
           barWidth = map_option (\<lambda>f. f * 100) (js_div p maxProbability),
           showWarning = (p > 5 / 1000) \<rparr>)"

text \<open>
  The four things the component renders: the loading notice, the prompt to select a
  country (\<open>cityPredictions\<close> is \<open>null\<close>), the "no prediction data" alert for an empty
  map, and the list of city cards with the number of cities and the country.
\<close>

datatype CityView =
  LoadingView
| SelectCountryView
| NoDataView string
| CityListView nat string "CityRow list"

text \<open>
  \<open>Math.max(...Object.values(cityPredictions))\<close> is only reached with at least one
  entry, after the check \<open>Object.keys(cityPredictions).length === 0\<close>.
\<close>

definition CityPredictions :: "CityProbabilityMap option \<Rightarrow> bool \<Rightarrow> string \<Rightarrow> CityView" where
  "CityPredictions cityPredictions cityPredictionsLoading country =
     (if cityPredictionsLoading then LoadingView
      else case cityPredictions of
        None \<Rightarrow> SelectCountryView
      | Some [] \<Rightarrow> NoDataView country
      | Some (e # es) \<Rightarrow>
          (let maxProbability = fold max (map snd es) (snd e)
           in CityListView (length (e # es)) country
                (map (cityRow maxProbability) (Array_sort byProbability (e # es)))))"

text \<open>The cards of a rendered view, top card first; no cards in the other three views.\<close>

definition rowsOf :: "CityView \<Rightarrow> CityRow list" where
  "rowsOf view = (case view of CityListView n country rows \<Rightarrow> rows | _ \<Rightarrow> [])"

definition topRow :: "CityView \<Rightarrow> CityRow option" where
  "topRow view = (case rowsOf view of [] \<Rightarrow> None | r # rs \<Rightarrow> Some r)"

section \<open>The prediction service (\<open>services/api/predictionService.ts\<close>)\<close>

text \<open>
  What the environment answers to a \<open>fetch\<close>: the promise rejects (the network failed, or
  the request was aborted by the 10 second timer), or a response arrives with a status,
  a body that \<open>text()\<close> reads (\<open>None\<close>: reading fails) and that \<open>json()\<close> parses
  (\<open>None\<close>: it is not JSON). The parsed value is cast to the expected type unchecked.
\<close>

datatype FetchError = NetworkError | AbortError

record 'a Response =
  status :: nat
  body_text :: "string option"
  body_json :: "'a option"

definition ok :: "'a Response \<Rightarrow> bool" where
  "ok response = (200 \<le> status response \<and> status response \<le> 299)"

text \<open>What a \<open>throw\<close> or a rejected promise carries.\<close>

datatype Thrown =
  FetchRejected FetchError
| ApiError nat
| BodyUnreadable

datatype NetworkQuality = NQ_good | NQ_moderate | NQ_poor

datatype WeatherCondition =
  WC_normal | WC_extreme_heat | WC_extreme_cold | WC_rainy | WC_stormy

text \<open>
  The field \<open>region\<close> of the simplified request is written \<open>request_region\<close>, apart from
  the field of the full request.
\<close>

record SimplifiedPredictionRequest =
  timestamp :: string
  city :: string
  country_code :: string
  metric_bgp :: real
  calc_bgp_mad :: real
  calc_avg_mad :: real
  request_region :: string
  network_quality :: NetworkQuality
  weather_condition :: WeatherCondition

record CityPredictionsResponse =
  predictions :: CityProbabilityMap

text \<open>
  \<open>predictDowntimeSimplified\<close>: \<open>r1\<close>, \<open>r2\<close>, \<open>r3\<close> are the three numbers \<open>Math.random()\<close>
  returns while the result is built. The \<open>catch\<close> logs and throws the error again.
\<close>

definition predictDowntimeSimplified ::
  "SimplifiedPredictionRequest \<Rightarrow> FetchError + 'a Response \<Rightarrow> real \<Rightarrow> real \<Rightarrow> real
     \<Rightarrow> Thrown + PredictionResult" where
  "predictDowntimeSimplified params fetched r1 r2 r3 =
     (case fetched of
        Inl e \<Rightarrow> Inl (FetchRejected e)
      | Inr response \<Rightarrow>
          if \<not> ok response then Inl (ApiError (status response))
          else case body_json response of
            None \<Rightarrow> Inl BodyUnreadable
          | Some data \<Rightarrow> Inr
              \<lparr> downtime_probability = toFixed 2 (r1 * (8 / 10) + 1 / 10),
                threshold = 7 / 10,
                alert_triggered = (r2 > 6 / 10),
                contributing_factors = Some
                  [\<lparr> name = ''BGP Metric'',
                     impact = toFixed 2 (\<bar>metric_bgp params\<bar> * (7 / 10)) \<rparr>,
                   \<lparr> name = ''Network Instability'',
                     impact = toFixed 2 (r3 * (5 / 10)) \<rparr>],
                recommendation = Some
                  ''Monitor BGP metrics closely and consider routing adjustments.'' \<rparr>)"

text \<open>
  The fallback tables of \<open>getCityPredictions\<close>. City names are spelled in UTF-8 bytes.
\<close>

definition fallbackSpain :: CityProbabilityMap where
  "fallbackSpain =
    [(''Madrid'', 34748444184734394 / 10000000000000000000),
     (''Barcelona'', 4376579690223345 / 1000000000000000000),
     (''Valencia'', 33437952261111837 / 10000000000000000000),
     (''Seville'', 6782503484561028 / 1000000000000000000),
     (''Zaragoza'', 3636487134878024 / 1000000000000000000),
     (''M'' @ [CHR 0xC3, CHR 0xA1] @ ''laga'', 34847247971792213 / 10000000000000000000),
     (''Murcia'', 35266592038738416 / 10000000000000000000),
     (''Palma'', 34320998997824427 / 10000000000000000000),
     (''Las Palmas'', 3947999745671289 / 1000000000000000000),
     (''Bilbao'', 35445528532564606 / 10000000000000000000),
     (''Alicante'', 4058265132688682 / 1000000000000000000),
     (''C'' @ [CHR 0xC3, CHR 0xB3] @ ''rdoba'', 63832946594888735 / 10000000000000000000),
     (''Valladolid'', 3503675406237349 / 1000000000000000000),
     (''Vigo'', 3947999745671289 / 1000000000000000000),
     (''Gij'' @ [CHR 0xC3, CHR 0xB3] @ ''n'', 35618539082385567 / 10000000000000000000)]"

definition fallbackUnitedStates :: CityProbabilityMap where
  "fallbackUnitedStates =
    [(''New York'', 45 / 10000),
     (''Los Angeles'', 52 / 10000),
     (''Chicago'', 38 / 10000),
     (''Houston'', 62 / 10000),
     (''Phoenix'', 31 / 10000),
     (''Philadelphia'', 44 / 10000),
     (''San Antonio'', 37 / 10000),
     (''San Diego'', 28 / 10000),
     (''Dallas'', 57 / 10000),
     (''San Jose'', 33 / 10000)]"

definition fallbackUnitedKingdom :: CityProbabilityMap where
  "fallbackUnitedKingdom =
    [(''London'', 39 / 10000),
     (''Birmingham'', 44 / 10000),
     (''Manchester'', 49 / 10000),
     (''Glasgow'', 51 / 10000),
     (''Liverpool'', 46 / 10000),
     (''Bristol'', 37 / 10000),
     (''Edinburgh'', 42 / 10000),
     (''Leeds'', 45 / 10000),
     (''Sheffield'', 38 / 10000),
     (''Newcastle'', 47 / 10000)]"

text \<open>The \<open>try\<close> block of \<open>getCityPredictions\<close>: \<open>Inl\<close> is what it throws.\<close>

definition getCityPredictions_try ::
  "string \<Rightarrow> FetchError + CityPredictionsResponse Response
     \<Rightarrow> Thrown + CityPredictionsResponse" where
  "getCityPredictions_try country fetched =
     (case fetched of
        Inl e \<Rightarrow> Inl (FetchRejected e)
      | Inr response \<Rightarrow>
          if \<not> ok response then
            (case body_text response of
               None \<Rightarrow> Inl BodyUnreadable
             | Some errorText \<Rightarrow> Inl (ApiError (status response)))
          else case body_json response of
            None \<Rightarrow> Inl BodyUnreadable
          | Some data \<Rightarrow> Inr data)"

text \<open>The \<open>catch\<close> block: it logs the error and returns, whatever was thrown.\<close>

definition getCityPredictions_catch :: "string \<Rightarrow> Thrown \<Rightarrow> Thrown + CityPredictionsResponse" where
  "getCityPredictions_catch country error =
     (if country = ''Spain'' then Inr \<lparr> predictions = fallbackSpain \<rparr>
      else if country = ''UnitedStates'' then Inr \<lparr> predictions = fallbackUnitedStates \<rparr>
      else if country = ''UnitedKingdom'' then Inr \<lparr> predictions = fallbackUnitedKingdom \<rparr>
      else Inr \<lparr> predictions = [] \<rparr>)"

definition getCityPredictions ::
  "string \<Rightarrow> FetchError + CityPredictionsResponse Response
     \<Rightarrow> Thrown + CityPredictionsResponse" where
  "getCityPredictions country fetched =
     (case getCityPredictions_try country fetched of
        Inr data \<Rightarrow> Inr data
      | Inl error \<Rightarrow> getCityPredictions_catch country error)"

section \<open>The prediction hook (\<open>usePrediction\<close>)\<close>

record Toast =
  variant :: "string option"
  title :: string
  description :: string

text \<open>
  The part of the hook's state that \<open>getSimplifiedPrediction\<close> writes, and the toasts it
  has shown, oldest first.
\<close>

record HookState =
  isLoading :: bool
  result :: "PredictionResult option"
  toasts :: "Toast list"

text \<open>The request that the mock branch builds from the simplified one.\<close>

definition fullRequest :: "SimplifiedPredictionRequest \<Rightarrow> PredictionRequest" where
  "fullRequest values =
     \<lparr> region = request_region values,
       latency_ms = (if network_quality values = NQ_good then 50
                     else if network_quality values = NQ_moderate then 150 else 300),
       packet_loss = (if network_quality values = NQ_good then 5 / 10
                      else if network_quality values = NQ_moderate then 2 else 8),
       temperature = (if weather_condition values = WC_normal then 25
                      else if weather_condition values = WC_extreme_heat then 40
                      else if weather_condition values = WC_extreme_cold then - 5 else 25),
       wind_speed = (if weather_condition values = WC_stormy then 35 else 5),
       humidity = (if weather_condition values = WC_rainy then 95 else 60) \<rparr>"

text \<open>The request that the \<open>catch\<close> block scores.\<close>

definition fallbackRequest :: "SimplifiedPredictionRequest \<Rightarrow> PredictionRequest" where
  "fallbackRequest values =
     \<lparr> region = request_region values,
       latency_ms = 150,
       packet_loss = 2,
       temperature = 25,
       wind_speed = 5,
       humidity = 60 \<rparr>"

definition completedToast :: Toast where
  "completedToast =
     \<lparr> variant = None, title = ''Prediction completed'',
       description = ''Downtime probability has been calculated.'' \<rparr>"

definition failedToast :: Toast where
  "failedToast =
     \<lparr> variant = Some ''destructive'', title = ''Prediction failed'',
       description = ''There was an error processing your request.'' \<rparr>"

text \<open>
  \<open>getSimplifiedPrediction\<close>: \<open>user\<close> says whether a user is signed in; \<open>fetched\<close>,
  \<open>r1\<close>, \<open>r2\<close>, \<open>r3\<close> are what the service call meets; \<open>rnd\<close> is the number
  \<open>Math.random()\<close> returns to the scorer. The \<open>try\<close> block gives the state it reached or
  what it threw; the \<open>catch\<close> block starts from the state at the throw, which is the
  state after \<open>setIsLoading(true)\<close>; \<open>finally\<close> clears \<open>isLoading\<close>.
\<close>

definition getSimplifiedPrediction_try ::
  "bool \<Rightarrow> bool \<Rightarrow> SimplifiedPredictionRequest \<Rightarrow> FetchError + 'a Response
     \<Rightarrow> real \<Rightarrow> real \<Rightarrow> real \<Rightarrow> real \<Rightarrow> HookState \<Rightarrow> Thrown + HookState" where
  "getSimplifiedPrediction_try user mockMode values fetched r1 r2 r3 rnd s =
     (if \<not> user \<or> mockMode then
        (let mockResult = calculateMockProbability (fullRequest values) rnd;
             s = s\<lparr> result := Some mockResult \<rparr>
         in Inr (s\<lparr> toasts := toasts s @ [completedToast] \<rparr>))
      else
        (case predictDowntimeSimplified values fetched r1 r2 r3 of
           Inl error \<Rightarrow> Inl error
         | Inr predictionResult \<Rightarrow>
             (let s = s\<lparr> result := Some predictionResult \<rparr>
              in Inr (s\<lparr> toasts := toasts s @ [completedToast] \<rparr>))))"

definition getSimplifiedPrediction_catch ::
  "SimplifiedPredictionRequest \<Rightarrow> real \<Rightarrow> HookState \<Rightarrow> Thrown \<Rightarrow> Thrown + HookState" where
  "getSimplifiedPrediction_catch values rnd s error =
     (let s = s\<lparr> toasts := toasts s @ [failedToast] \<rparr>;
          mockResult = calculateMockProbability (fallbackRequest values) rnd
      in Inr (s\<lparr> result := Some mockResult \<rparr>))"

definition getSimplifiedPrediction ::
  "bool \<Rightarrow> bool \<Rightarrow> SimplifiedPredictionRequest \<Rightarrow> FetchError + 'a Response
     \<Rightarrow> real \<Rightarrow> real \<Rightarrow> real \<Rightarrow> real \<Rightarrow> HookState \<Rightarrow> Thrown + HookState" where
  "getSimplifiedPrediction user mockMode values fetched r1 r2 r3 rnd s0 =
     (let s = s0\<lparr> isLoading := True \<rparr>;
          outcome = (case getSimplifiedPrediction_try user mockMode values fetched r1 r2 r3 rnd s of
                       Inr s' \<Rightarrow> Inr s'
                     | Inl error \<Rightarrow> getSimplifiedPrediction_catch values rnd s error)
      in case outcome of
           Inr s' \<Rightarrow> Inr (s'\<lparr> isLoading := False \<rparr>)
         | Inl error \<Rightarrow> Inl error)"

section \<open>Properties of the scorer\<close>

lemma jitteredProbability_range:
  "0 \<le> jitteredProbability values rnd \<and> jitteredProbability values rnd \<le> 1"
  by (simp add: jitteredProbability_def Let_def)

lemma toFixed_nonneg_small:
  "0 \<le> x \<Longrightarrow> x \<le> 1 \<Longrightarrow> toFixed 2 x = of_int \<lfloor>x * 100 + 1 / 2\<rfloor> / 100"
  by (simp add: toFixed_def)

lemma toFixed_ge_iff:
  "0 \<le> x \<Longrightarrow> x \<le> 1 \<Longrightarrow> (of_int k / 100 \<le> toFixed 2 x) = (of_int k \<le> x * 100 + 1 / 2)"
  by (simp add: toFixed_nonneg_small le_floor_iff divide_le_cancel)

lemma toFixed_le_iff:
  "0 \<le> x \<Longrightarrow> x \<le> 1 \<Longrightarrow> (toFixed 2 x \<le> of_int k / 100) = (x * 100 + 1 / 2 < of_int k + 1)"
  by (simp add: toFixed_nonneg_small floor_le_iff divide_le_cancel)

lemma downtime_probability_eq:
  "downtime_probability (calculateMockProbability values rnd)
     = toFixed 2 (jitteredProbability values rnd)"
  by (simp add: calculateMockProbability_def Let_def)

lemma alert_triggered_eq:
  "alert_triggered (calculateMockProbability values rnd)
     = (jitteredProbability values rnd > 7 / 10)"
  by (simp add: calculateMockProbability_def Let_def)

lemma downtime_probability_bounds:
  "0 \<le> downtime_probability (calculateMockProbability values rnd)
   \<and> downtime_probability (calculateMockProbability values rnd) \<le> 1"
proof -
  let ?p = "jitteredProbability values rnd"
  have r: "0 \<le> ?p" "?p \<le> 1" using jitteredProbability_range by auto
  have "of_int 0 / 100 \<le> toFixed 2 ?p"
    using r by (subst toFixed_ge_iff) auto
  moreover have "toFixed 2 ?p \<le> of_int 100 / 100"
    using r by (subst toFixed_le_iff) auto
  ultimately show ?thesis by (simp add: downtime_probability_eq)
qed

lemma jittered_high:
  assumes "preJitterProbability values = 1" "- (1 / 10) \<le> jitter rnd" "jitter rnd \<le> 1 / 10"
  shows "9 / 10 \<le> jitteredProbability values rnd"
  using assms by (simp add: jitteredProbability_def Let_def)

lemma jittered_low:
  assumes "preJitterProbability values = 0" "- (1 / 10) \<le> jitter rnd" "jitter rnd \<le> 1 / 10"
  shows "jitteredProbability values rnd \<le> 1 / 10"
  using assms by (simp add: jitteredProbability_def Let_def)

text \<open>
  Claim C1, as amended. The claim compares the returned, rounded \<open>downtime_probability\<close>
  with 0.7; the scorer compares the probability before rounding. What holds for every
  input and every random draw: the threshold is 0.7, \<open>alert_triggered\<close> is the comparison
  of the unrounded probability (after the jitter and the second clamp) with the threshold,
  a returned \<open>downtime_probability\<close> above 0.7 comes with the alert, and an alert comes
  with a returned \<open>downtime_probability\<close> of at least 0.7.
\<close>

theorem alert_triggered_unrounded:
  "threshold (calculateMockProbability values rnd) = 7 / 10
   \<and> alert_triggered (calculateMockProbability values rnd)
       = (jitteredProbability values rnd > threshold (calculateMockProbability values rnd))
   \<and> (downtime_probability (calculateMockProbability values rnd) > 7 / 10
        \<longrightarrow> alert_triggered (calculateMockProbability values rnd))
   \<and> (alert_triggered (calculateMockProbability values rnd)
        \<longrightarrow> downtime_probability (calculateMockProbability values rnd) \<ge> 7 / 10)"
proof -
  let ?p = "jitteredProbability values rnd"
  have r: "0 \<le> ?p" "?p \<le> 1" using jitteredProbability_range by auto
  have t: "threshold (calculateMockProbability values rnd) = 7 / 10"
    by (simp add: calculateMockProbability_def Let_def)
  have a: "toFixed 2 ?p > 7 / 10 \<longrightarrow> ?p > 7 / 10"
  proof
    assume "toFixed 2 ?p > 7 / 10"
    then show "?p > 7 / 10"
      using toFixed_le_iff [OF r, of 70] by simp
  qed
  have b: "?p > 7 / 10 \<longrightarrow> toFixed 2 ?p \<ge> 7 / 10"
  proof
    assume "?p > 7 / 10"
    then show "toFixed 2 ?p \<ge> 7 / 10"
      using toFixed_ge_iff [OF r, of 70] by simp
  qed
  show ?thesis
    using a b by (simp add: t downtime_probability_eq alert_triggered_eq)
qed

text \<open>
  The amended C1 at latency 2340 ms with a random draw of 0.5 (jitter 0): the unrounded
  probability is 0.702, the alert is raised and the returned probability is 0.70.
\<close>

theorem alert_triggered_unrounded_witness:
  "alert_triggered (calculateMockProbability
      \<lparr> region = ''kenya'', latency_ms = 2340, packet_loss = 0, temperature = 25,
        wind_speed = 5, humidity = 60 \<rparr> (1 / 2))
   \<and> downtime_probability (calculateMockProbability
      \<lparr> region = ''kenya'', latency_ms = 2340, packet_loss = 0, temperature = 25,
        wind_speed = 5, humidity = 60 \<rparr> (1 / 2)) \<ge> 7 / 10"
  using alert_triggered_unrounded [of "\<lparr> region = ''kenya'', latency_ms = 2340, packet_loss = 0,
        temperature = 25, wind_speed = 5, humidity = 60 \<rparr>" "1 / 2"]
  by (simp add: jitteredProbability_def preJitterProbability_def rawProbability_def jitter_def
      Let_def)

text \<open>
  Claim C1 as stated fails at the same input: the alert is raised although the returned
  \<open>downtime_probability\<close>, 0.70, is not above 0.7.
\<close>

theorem alert_rounded_counterexample:
  "alert_triggered (calculateMockProbability
      \<lparr> region = ''kenya'', latency_ms = 2340, packet_loss = 0, temperature = 25,
        wind_speed = 5, humidity = 60 \<rparr> (1 / 2))
   \<noteq> (downtime_probability (calculateMockProbability
      \<lparr> region = ''kenya'', latency_ms = 2340, packet_loss = 0, temperature = 25,
        wind_speed = 5, humidity = 60 \<rparr> (1 / 2)) > 7 / 10)"
  by (simp add: calculateMockProbability_def jitteredProbability_def preJitterProbability_def
      rawProbability_def jitter_def toFixed_def Let_def)

text \<open>
  Claim C3: for every input, whatever its fields, and every random draw, the returned
  \<open>downtime_probability\<close> lies in \<open>[0, 1]\<close> and is a whole number of hundredths, that is,
  it has at most 2 decimal places.
\<close>

theorem downtime_probability_range:
  "0 \<le> downtime_probability (calculateMockProbability values rnd)
   \<and> downtime_probability (calculateMockProbability values rnd) \<le> 1
   \<and> (\<exists>n::int. downtime_probability (calculateMockProbability values rnd) = of_int n / 10 ^ 2)"
proof -
  let ?p = "jitteredProbability values rnd"
  have r: "0 \<le> ?p" "?p \<le> 1" using jitteredProbability_range by auto
  have "toFixed 2 ?p = of_int \<lfloor>?p * 100 + 1 / 2\<rfloor> / 10 ^ 2"
    using r by (simp add: toFixed_nonneg_small)
  then have "\<exists>n::int. downtime_probability (calculateMockProbability values rnd)
      = of_int n / 10 ^ 2"
    unfolding downtime_probability_eq by (rule exI)
  then show ?thesis using downtime_probability_bounds by blast
qed

text \<open>
  Claim C4: for every input and every random draw the contributing factors are the same
  three entries, Network Latency 0.35, Packet Loss 0.30 and Environmental Conditions 0.25,
  in this order, and their impacts sum to 0.90.
\<close>

theorem contributing_factors_static:
  "contributing_factors (calculateMockProbability values rnd) = Some
     [\<lparr> name = ''Network Latency'', impact = 35 / 100 \<rparr>,
      \<lparr> name = ''Packet Loss'', impact = 30 / 100 \<rparr>,
      \<lparr> name = ''Environmental Conditions'', impact = 25 / 100 \<rparr>]
   \<and> length (the (contributing_factors (calculateMockProbability values rnd))) = 3
   \<and> sum_list (map impact (the (contributing_factors (calculateMockProbability values rnd))))
       = 90 / 100"
  by (simp add: calculateMockProbability_def Let_def)

text \<open>
  Claim C5: for the input with latency 1000 ms, packet loss 100, temperature 40, wind
  speed 25 and humidity 95 (any region), the sum before the first clamp is
  0.3 + 0.3 + 0.15 + 0.1 + 0.15 = 1.0 and stays 1.0 after it; for every jitter in
  \<open>[-0.1, 0.1]\<close> the returned \<open>downtime_probability\<close> lies in \<open>[0.9, 1.0]\<close> and the alert
  is raised.
\<close>

theorem scenario_all_penalties:
  assumes "values = \<lparr> region = r, latency_ms = 1000, packet_loss = 100, temperature = 40,
                      wind_speed = 25, humidity = 95 \<rparr>"
    and "- (1 / 10) \<le> jitter rnd" and "jitter rnd \<le> 1 / 10"
  shows "rawProbability values = 3 / 10 + 3 / 10 + 15 / 100 + 1 / 10 + 15 / 100
     \<and> rawProbability values = 1
     \<and> preJitterProbability values = 1
     \<and> 9 / 10 \<le> downtime_probability (calculateMockProbability values rnd)
     \<and> downtime_probability (calculateMockProbability values rnd) \<le> 1
     \<and> alert_triggered (calculateMockProbability values rnd)"
proof -
  let ?p = "jitteredProbability values rnd"
  have raw: "rawProbability values = 1"
    by (simp add: assms(1) rawProbability_def Let_def)
  then have pre: "preJitterProbability values = 1"
    by (simp add: preJitterProbability_def)
  have r: "0 \<le> ?p" "?p \<le> 1" using jitteredProbability_range by auto
  have hi: "9 / 10 \<le> ?p" using pre assms(2,3) by (rule jittered_high)
  then have "9 / 10 \<le> toFixed 2 ?p"
    using toFixed_ge_iff [OF r, of 90] by simp
  moreover have "alert_triggered (calculateMockProbability values rnd)"
    using hi by (simp add: alert_triggered_eq)
  ultimately show ?thesis
    using raw pre downtime_probability_bounds [of "values" rnd]
    by (simp add: downtime_probability_eq)
qed

text \<open>C5 at region kenya and a random draw of 0.25 (jitter -0.05).\<close>

theorem scenario_all_penalties_witness:
  "rawProbability \<lparr> region = ''kenya'', latency_ms = 1000, packet_loss = 100, temperature = 40,
                      wind_speed = 25, humidity = 95 \<rparr> = 1
   \<and> - (1 / 10) \<le> jitter (1 / 4) \<and> jitter (1 / 4) \<le> 1 / 10
   \<and> 9 / 10 \<le> downtime_probability (calculateMockProbability
        \<lparr> region = ''kenya'', latency_ms = 1000, packet_loss = 100, temperature = 40,
          wind_speed = 25, humidity = 95 \<rparr> (1 / 4))
   \<and> alert_triggered (calculateMockProbability
        \<lparr> region = ''kenya'', latency_ms = 1000, packet_loss = 100, temperature = 40,
          wind_speed = 25, humidity = 95 \<rparr> (1 / 4))"
proof -
  have j: "- (1 / 10) \<le> jitter (1 / 4)" "jitter (1 / 4) \<le> 1 / 10"
    by (simp_all add: jitter_def)
  show ?thesis
    using j scenario_all_penalties [OF refl j, of "''kenya''"] by simp
qed

text \<open>
  Claim C6: for every input with latency 0, packet loss 0, temperature in \<open>[0, 35]\<close>,
  humidity at most 90 and wind speed at most 20, the probability before the jitter is
  exactly 0, and for every jitter in \<open>[-0.1, 0.1]\<close> the returned \<open>downtime_probability\<close>
  lies in \<open>[0, 0.1]\<close> and no alert is raised.
\<close>

theorem quiet_input_low:
  assumes "latency_ms values = 0" and "packet_loss values = 0"
    and "0 \<le> temperature values" and "temperature values \<le> 35"
    and "humidity values \<le> 90" and "wind_speed values \<le> 20"
    and "- (1 / 10) \<le> jitter rnd" and "jitter rnd \<le> 1 / 10"
  shows "preJitterProbability values = 0
     \<and> 0 \<le> downtime_probability (calculateMockProbability values rnd)
     \<and> downtime_probability (calculateMockProbability values rnd) \<le> 1 / 10
     \<and> \<not> alert_triggered (calculateMockProbability values rnd)"
proof -
  let ?p = "jitteredProbability values rnd"
  have pre: "preJitterProbability values = 0"
    using assms(1-6) by (simp add: preJitterProbability_def rawProbability_def Let_def)
  have r: "0 \<le> ?p" "?p \<le> 1" using jitteredProbability_range by auto
  have lo: "?p \<le> 1 / 10" using pre assms(7,8) by (rule jittered_low)
  then have "toFixed 2 ?p \<le> 1 / 10"
    using toFixed_le_iff [OF r, of 10] by simp
  moreover have "\<not> alert_triggered (calculateMockProbability values rnd)"
    using lo by (simp add: alert_triggered_eq)
  ultimately show ?thesis
    using pre downtime_probability_bounds [of "values" rnd]
    by (simp add: downtime_probability_eq)
qed

text \<open>
  C6 at the scenario input (kenya, temperature 25, wind speed 5, humidity 60) and a random
  draw of 0.75 (jitter 0.05).
\<close>

theorem quiet_input_low_witness:
  "preJitterProbability \<lparr> region = ''kenya'', latency_ms = 0, packet_loss = 0, temperature = 25,
        wind_speed = 5, humidity = 60 \<rparr> = 0
   \<and> - (1 / 10) \<le> jitter (3 / 4) \<and> jitter (3 / 4) \<le> 1 / 10
   \<and> downtime_probability (calculateMockProbability
        \<lparr> region = ''kenya'', latency_ms = 0, packet_loss = 0, temperature = 25,
          wind_speed = 5, humidity = 60 \<rparr> (3 / 4)) \<le> 1 / 10
   \<and> \<not> alert_triggered (calculateMockProbability
        \<lparr> region = ''kenya'', latency_ms = 0, packet_loss = 0, temperature = 25,
          wind_speed = 5, humidity = 60 \<rparr> (3 / 4))"
proof -
  have j: "- (1 / 10) \<le> jitter (3 / 4)" "jitter (3 / 4) \<le> 1 / 10"
    by (simp_all add: jitter_def)
  show ?thesis
    using j quiet_input_low [of "\<lparr> region = ''kenya'', latency_ms = 0, packet_loss = 0,
        temperature = 25, wind_speed = 5, humidity = 60 \<rparr>" "3 / 4"]
    by simp
qed

section \<open>Properties of the city risk view\<close>

lemma mset_insert_by: "mset (insert_by compareFn x ys) = add_mset x (mset ys)"
  by (induction ys) auto

lemma mset_Array_sort: "mset (Array_sort compareFn xs) = mset xs"
  by (induction xs) (auto simp: Array_sort_def mset_insert_by)

lemma set_insert_by: "set (insert_by compareFn x ys) = insert x (set ys)"
  by (induction ys) auto

lemma sorted_insert_by:
  "sorted_wrt (\<lambda>a b. snd b \<le> snd a) ys
   \<Longrightarrow> sorted_wrt (\<lambda>a b. snd b \<le> snd a) (insert_by byProbability x ys)"
  by (induction ys) (auto simp: set_insert_by byProbability_def)

lemma sorted_Array_sort:
  "sorted_wrt (\<lambda>a b. snd b \<le> snd a) (Array_sort byProbability xs)"
  by (induction xs) (auto simp: Array_sort_def sorted_insert_by)

text \<open>
  An entry only moves behind entries of strictly larger probability, so the entries of
  one probability keep their order.
\<close>

lemma filter_insert_by:
  "filter (\<lambda>e. snd e = p) (insert_by byProbability x ys) = filter (\<lambda>e. snd e = p) (x # ys)"
  by (induction ys) (auto simp: byProbability_def)

lemma filter_Array_sort:
  "filter (\<lambda>e. snd e = p) (Array_sort byProbability xs) = filter (\<lambda>e. snd e = p) xs"
  by (induction xs) (auto simp: Array_sort_def filter_insert_by)

lemma fold_max_ge: "(a::real) \<le> fold max xs a \<and> (\<forall>x \<in> set xs. x \<le> fold max xs a)"
proof (induction xs arbitrary: a)
  case Nil
  then show ?case by simp
next
  case (Cons y ys)
  have "max y a \<le> fold max ys (max y a)" using Cons.IH by blast
  then show ?case using Cons.IH [of "max y a"] by auto
qed

lemma fold_max_mem: "fold max xs (a::real) \<in> insert a (set xs)"
proof (induction xs arbitrary: a)
  case Nil
  then show ?case by simp
next
  case (Cons y ys)
  have "fold max ys (max y a) \<in> insert (max y a) (set ys)" using Cons.IH .
  moreover have "max y a = y \<or> max y a = a" by (simp add: max_def)
  ultimately show ?case by auto
qed

lemma maxProbability_is_max:
  fixes m :: "(string \<times> real) list"
  assumes "m \<noteq> []"
  shows "fold max (map snd (tl m)) (snd (hd m)) \<in> snd ` set m"
    and "\<forall>e \<in> set m. snd e \<le> fold max (map snd (tl m)) (snd (hd m))"
proof -
  obtain e es where m: "m = e # es" using assms by (cases m) auto
  show "fold max (map snd (tl m)) (snd (hd m)) \<in> snd ` set m"
    using fold_max_mem [of "map snd es" "snd e"] by (auto simp: m)
  show "\<forall>e \<in> set m. snd e \<le> fold max (map snd (tl m)) (snd (hd m))"
    using fold_max_ge [of "snd e" "map snd es"] by (auto simp: m)
qed

lemma sorted_head_max:
  assumes "sorted_wrt (\<lambda>a b. snd b \<le> snd a) (y # ys)"
    and "mx \<in> snd ` set (y # ys)" and "\<forall>q \<in> snd ` set (y # ys). q \<le> mx"
  shows "snd y = (mx::real)"
  using assms by (auto intro: antisym)

lemma cityRow_fields:
  "probability (cityRow mx e) = snd e" "cityName (cityRow mx e) = fst e"
  "barFraction (cityRow mx e) = js_div (snd e) mx"
  by (simp_all add: cityRow_def Let_def)

lemma rows_cityName:
  "map cityName (map (cityRow mx) es) = map fst es"
  by (induction es) (auto simp: cityRow_fields)

lemma rowsOf_CityPredictions:
  "m \<noteq> [] \<Longrightarrow> rowsOf (CityPredictions (Some m) False country)
     = map (cityRow (fold max (map snd (tl m)) (snd (hd m)))) (Array_sort byProbability m)"
  by (cases m) (auto simp: CityPredictions_def rowsOf_def Let_def)

lemma riskLevel_cases:
  "riskLevel (cityRow mx (c, p)) =
     (if p > 6 / 1000 then ''Higher Risk''
      else if p > 4 / 1000 then ''Moderate Risk'' else ''Lower Risk'')"
  by (simp add: cityRow_def classifyRisk_def Let_def)

lemma pin_warning_cases:
  "pinColor (cityRow mx (c, p))
     = (if p > 5 / 1000 then ''text-amber-500'' else ''text-emerald-500'')"
  "showWarning (cityRow mx (c, p)) = (p > 5 / 1000)"
  by (simp_all add: cityRow_def Let_def)

text \<open>
  Claim C2, as amended. For every non-empty map of city probabilities (not loading), the
  cards are in descending order of probability; they are the entries of the map, each
  once; the cities of one probability keep the order the map lists them in; the top card
  carries the largest probability of the map, and its \<open>barFraction\<close> is 1.0 whenever that
  largest probability is not 0.
\<close>

theorem city_rows_sorted_stable:
  assumes "m \<noteq> []"
  shows "sorted_wrt (\<lambda>a b. probability b \<le> probability a)
           (rowsOf (CityPredictions (Some m) False country))
     \<and> mset (map (\<lambda>r. (cityName r, probability r))
           (rowsOf (CityPredictions (Some m) False country))) = mset m
     \<and> (\<forall>p. map cityName (filter (\<lambda>r. probability r = p)
             (rowsOf (CityPredictions (Some m) False country)))
           = map fst (filter (\<lambda>e. snd e = p) m))
     \<and> (\<exists>top. topRow (CityPredictions (Some m) False country) = Some top
           \<and> (\<forall>e \<in> set m. snd e \<le> probability top)
           \<and> (probability top \<noteq> 0 \<longrightarrow> barFraction top = Some 1))"
proof -
  define mx where "mx = fold max (map snd (tl m)) (snd (hd m))"
  define ordered where "ordered = Array_sort byProbability m"
  have rows: "rowsOf (CityPredictions (Some m) False country) = map (cityRow mx) ordered"
    using assms by (simp add: rowsOf_CityPredictions mx_def ordered_def)
  have s1: "sorted_wrt (\<lambda>a b. probability b \<le> probability a) (map (cityRow mx) ordered)"
    using sorted_Array_sort [of m]
    by (simp add: sorted_wrt_map cityRow_fields ordered_def)
  have "map (\<lambda>r. (cityName r, probability r)) (map (cityRow mx) ordered) = ordered"
    by (induction ordered) (simp_all add: cityRow_fields)
  then have s2: "mset (map (\<lambda>r. (cityName r, probability r)) (map (cityRow mx) ordered))
      = mset m"
    by (simp add: ordered_def mset_Array_sort)
  have s3: "map cityName (filter (\<lambda>r. probability r = p) (map (cityRow mx) ordered))
              = map fst (filter (\<lambda>e. snd e = p) m)" for p
  proof -
    have "map cityName (filter (\<lambda>r. probability r = p) (map (cityRow mx) ordered))
            = map cityName (map (cityRow mx) (filter (\<lambda>e. snd e = p) ordered))"
      by (simp add: filter_map comp_def cityRow_fields)
    also have "\<dots> = map fst (filter (\<lambda>e. snd e = p) ordered)"
      by (rule rows_cityName)
    also have "\<dots> = map fst (filter (\<lambda>e. snd e = p) m)"
      by (simp add: ordered_def filter_Array_sort)
    finally show ?thesis .
  qed
  have "mset ordered = mset m" by (simp add: ordered_def mset_Array_sort)
  then have sets: "set ordered = set m" by (rule mset_eq_setD)
  then have "ordered \<noteq> []" using assms by auto
  then obtain y ys where ys: "ordered = y # ys" by (cases ordered) auto
  have top: "topRow (CityPredictions (Some m) False country) = Some (cityRow mx y)"
    by (simp add: topRow_def rows ys)
  have mem: "mx \<in> snd ` set (y # ys)" and ub: "\<forall>q \<in> snd ` set (y # ys). q \<le> mx"
    using maxProbability_is_max [OF assms] sets by (auto simp: mx_def ys)
  have "sorted_wrt (\<lambda>a b. snd b \<le> snd a) (y # ys)"
    using sorted_Array_sort [of m] by (simp add: ordered_def [symmetric] ys)
  then have top_max: "snd y = mx" using mem ub by (rule sorted_head_max)
  have s4: "\<forall>e \<in> set m. snd e \<le> probability (cityRow mx y)"
    using maxProbability_is_max(2) [OF assms] by (simp add: cityRow_fields top_max mx_def)
  have s5: "probability (cityRow mx y) \<noteq> 0 \<longrightarrow> barFraction (cityRow mx y) = Some 1"
    by (simp add: cityRow_fields top_max js_div_def)
  show ?thesis
    unfolding rows using s1 s2 s3 top s4 s5 by (simp add: rows)
qed

text \<open>
  The amended C2 at a map that lists Madrid, Seville and Vigo, with Madrid and Vigo tied:
  Seville comes first with a full bar, Madrid stays in front of Vigo.
\<close>

theorem city_rows_sorted_stable_witness:
  "[(''Madrid'', 35 / 10000), (''Seville'', 68 / 10000), (''Vigo'', 35 / 10000)] \<noteq> []
   \<and> map cityName (rowsOf (CityPredictions
         (Some [(''Madrid'', 35 / 10000), (''Seville'', 68 / 10000), (''Vigo'', 35 / 10000)])
         False ''Spain'')) = [''Seville'', ''Madrid'', ''Vigo'']
   \<and> map_option barFraction (topRow (CityPredictions
         (Some [(''Madrid'', 35 / 10000), (''Seville'', 68 / 10000), (''Vigo'', 35 / 10000)])
         False ''Spain'')) = Some (Some 1)"
  using city_rows_sorted_stable
    [of "[(''Madrid'', 35 / 10000), (''Seville'', 68 / 10000), (''Vigo'', 35 / 10000)]" "''Spain''"]
  by (simp add: CityPredictions_def rowsOf_def topRow_def Array_sort_def byProbability_def
      cityRow_def js_div_def Let_def)

text \<open>
  Claim C2 as stated fails at the non-empty map whose only city has probability 0: the
  largest probability is 0, the top card's \<open>barFraction\<close> is \<open>0 / 0\<close>, not a number,
  and not 1.0.
\<close>

theorem top_bar_counterexample:
  "map_option barFraction (topRow (CityPredictions (Some [(''Madrid'', 0)]) False ''Spain''))
     \<noteq> Some (Some 1)"
  by (simp add: CityPredictions_def rowsOf_def topRow_def Array_sort_def byProbability_def
      cityRow_def js_div_def Let_def)

text \<open>
  Claim C7: a city's risk level is Higher exactly when its probability is above 0.006,
  Moderate exactly when it is above 0.004 and at most 0.006, and Lower exactly when it is
  at most 0.004; the level is always one of these three, which are different labels, so
  every probability gets exactly one; and the levels rise with the probability: above a
  Higher city every city is Higher, below a Lower city every city is Lower.
\<close>

theorem risk_tiers_partition:
  "(riskLevel (cityRow mx (c, p)) = ''Higher Risk'') = (p > 6 / 1000)
   \<and> (riskLevel (cityRow mx (c, p)) = ''Moderate Risk'') = (4 / 1000 < p \<and> p \<le> 6 / 1000)
   \<and> (riskLevel (cityRow mx (c, p)) = ''Lower Risk'') = (p \<le> 4 / 1000)
   \<and> riskLevel (cityRow mx (c, p)) \<in> {''Lower Risk'', ''Moderate Risk'', ''Higher Risk''}
   \<and> distinct [''Lower Risk'', ''Moderate Risk'', ''Higher Risk'']
   \<and> (p \<le> q \<and> riskLevel (cityRow mx (c, p)) = ''Higher Risk''
        \<longrightarrow> riskLevel (cityRow mx' (c', q)) = ''Higher Risk'')
   \<and> (p \<le> q \<and> riskLevel (cityRow mx' (c', q)) = ''Lower Risk''
        \<longrightarrow> riskLevel (cityRow mx (c, p)) = ''Lower Risk'')"
  by (simp add: riskLevel_cases)

text \<open>
  C7 at the scenario's cities: Seville (0.0068) is Higher, so is a city at 0.007 above it;
  Madrid (0.0035) is Lower.
\<close>

theorem risk_tiers_partition_witness:
  "(68 / 10000 :: real) \<le> 7 / 1000
   \<and> riskLevel (cityRow (7 / 1000) (''Seville'', 68 / 10000)) = ''Higher Risk''
   \<and> riskLevel (cityRow (7 / 1000) (''Madrid'', 35 / 10000)) = ''Lower Risk''
   \<and> riskLevel (cityRow (7 / 1000) (''Cadiz'', 7 / 1000)) = ''Higher Risk''"
  using risk_tiers_partition
      [of "7 / 1000" "''Seville''" "68 / 10000" "7 / 1000" "7 / 1000" "''Cadiz''"]
    risk_tiers_partition [of "7 / 1000" "''Madrid''" "35 / 10000"]
  by simp

lemma cityRow_pin_warning:
  "showWarning (cityRow mx (c, p)) = (p > 5 / 1000)
   \<and> (pinColor (cityRow mx (c, p)) = ''text-amber-500'') = (p > 5 / 1000)
   \<and> (pinColor (cityRow mx (c, p)) = ''text-emerald-500'') = (p \<le> 5 / 1000)
   \<and> (4 / 1000 < p \<and> p \<le> 5 / 1000
        \<longrightarrow> riskLevel (cityRow mx (c, p)) = ''Moderate Risk''
          \<and> pinColor (cityRow mx (c, p)) = ''text-emerald-500''
          \<and> \<not> showWarning (cityRow mx (c, p)))
   \<and> (5 / 1000 < p \<and> p \<le> 6 / 1000
        \<longrightarrow> riskLevel (cityRow mx (c, p)) = ''Moderate Risk''
          \<and> pinColor (cityRow mx (c, p)) = ''text-amber-500''
          \<and> showWarning (cityRow mx (c, p)))
   \<and> (p > 6 / 1000
        \<longrightarrow> riskLevel (cityRow mx (c, p)) = ''Higher Risk''
          \<and> pinColor (cityRow mx (c, p)) = ''text-amber-500''
          \<and> showWarning (cityRow mx (c, p)))"
  by (simp add: riskLevel_cases pin_warning_cases)

lemma rows_entries:
  "map (\<lambda>r. (cityName r, probability r)) (map (cityRow mx) es) = es"
  by (induction es) (simp_all add: cityRow_fields)

lemma rowsOf_cards:
  "\<exists>mx. rowsOf (CityPredictions (Some m) False country)
          = map (cityRow mx) (Array_sort byProbability m)"
proof (cases m)
  case Nil
  then show ?thesis by (simp add: CityPredictions_def rowsOf_def Array_sort_def)
next
  case (Cons e es)
  then have "m \<noteq> []" by simp
  then show ?thesis using rowsOf_CityPredictions by blast
qed

text \<open>
  Claim C10: the component renders one card for each entry of the map, and on every card
  the instability warning is shown, and the map pin is amber, exactly when the city's
  probability is above 0.005; the pin is green otherwise. The threshold 0.005 lies
  strictly inside the Moderate tier: a city above 0.004 and at most 0.005 is labelled
  Moderate Risk and has a green pin and no warning, a city above 0.005 and at most 0.006
  is labelled Moderate Risk with an amber pin and the warning, and every Higher Risk city
  (above 0.006) has the amber pin and the warning.
\<close>

theorem warning_threshold_inside_moderate:
  "mset (map (\<lambda>r. (cityName r, probability r))
      (rowsOf (CityPredictions (Some m) False country))) = mset m
   \<and> (\<forall>e \<in> set m. \<exists>r \<in> set (rowsOf (CityPredictions (Some m) False country)).
         cityName r = fst e \<and> probability r = snd e)
   \<and> (\<forall>r \<in> set (rowsOf (CityPredictions (Some m) False country)).
         (cityName r, probability r) \<in> set m
       \<and> showWarning r = (probability r > 5 / 1000)
       \<and> (pinColor r = ''text-amber-500'') = (probability r > 5 / 1000)
       \<and> (pinColor r = ''text-emerald-500'') = (probability r \<le> 5 / 1000)
       \<and> (4 / 1000 < probability r \<and> probability r \<le> 5 / 1000
            \<longrightarrow> riskLevel r = ''Moderate Risk'' \<and> pinColor r = ''text-emerald-500''
              \<and> \<not> showWarning r)
       \<and> (5 / 1000 < probability r \<and> probability r \<le> 6 / 1000
            \<longrightarrow> riskLevel r = ''Moderate Risk'' \<and> pinColor r = ''text-amber-500''
              \<and> showWarning r)
       \<and> (probability r > 6 / 1000
            \<longrightarrow> riskLevel r = ''Higher Risk'' \<and> pinColor r = ''text-amber-500''
              \<and> showWarning r))"
proof -
  obtain mx where rows: "rowsOf (CityPredictions (Some m) False country)
      = map (cityRow mx) (Array_sort byProbability m)"
    using rowsOf_cards by blast
  have sets: "set (Array_sort byProbability m) = set m"
    using mset_Array_sort [of byProbability m] by (rule mset_eq_setD)
  have c1: "mset (map (\<lambda>r. (cityName r, probability r))
      (map (cityRow mx) (Array_sort byProbability m))) = mset m"
    by (simp only: rows_entries mset_Array_sort)
  have c2: "\<exists>r \<in> set (map (cityRow mx) (Array_sort byProbability m)).
      cityName r = fst e \<and> probability r = snd e" if "e \<in> set m" for e
  proof
    show "cityRow mx e \<in> set (map (cityRow mx) (Array_sort byProbability m))"
      using that sets by simp
    show "cityName (cityRow mx e) = fst e \<and> probability (cityRow mx e) = snd e"
      by (simp add: cityRow_fields)
  qed
  have c3: "(cityName r, probability r) \<in> set m
       \<and> showWarning r = (probability r > 5 / 1000)
       \<and> (pinColor r = ''text-amber-500'') = (probability r > 5 / 1000)
       \<and> (pinColor r = ''text-emerald-500'') = (probability r \<le> 5 / 1000)
       \<and> (4 / 1000 < probability r \<and> probability r \<le> 5 / 1000
            \<longrightarrow> riskLevel r = ''Moderate Risk'' \<and> pinColor r = ''text-emerald-500''
              \<and> \<not> showWarning r)
       \<and> (5 / 1000 < probability r \<and> probability r \<le> 6 / 1000
            \<longrightarrow> riskLevel r = ''Moderate Risk'' \<and> pinColor r = ''text-amber-500''
              \<and> showWarning r)
       \<and> (probability r > 6 / 1000
            \<longrightarrow> riskLevel r = ''Higher Risk'' \<and> pinColor r = ''text-amber-500''
              \<and> showWarning r)"
    if rmem: "r \<in> set (map (cityRow mx) (Array_sort byProbability m))" for r
  proof -
    obtain c p where r: "r = cityRow mx (c, p)" and mem: "(c, p) \<in> set m"
      using rmem sets by auto
    have f: "cityName r = c" "probability r = p"
      by (simp_all add: r cityRow_fields)
    show ?thesis
      using mem cityRow_pin_warning [of mx c p] by (simp add: f) (simp add: r)
  qed
  show ?thesis
    unfolding rows using c1 c2 c3 by blast
qed

text \<open>
  C10 at three cities of the United States table: Houston (0.0062) is Higher with the
  amber pin and the warning, Los Angeles (0.0052) is Moderate with the amber pin and the
  warning, New York (0.0045) is Moderate with a green pin and no warning.
\<close>

theorem warning_threshold_inside_moderate_witness:
  "map (\<lambda>r. (cityName r, riskLevel r, pinColor r, showWarning r))
     (rowsOf (CityPredictions
        (Some [(''New York'', 45 / 10000), (''Los Angeles'', 52 / 10000), (''Houston'', 62 / 10000)])
        False ''UnitedStates''))
   = [(''Houston'', ''Higher Risk'', ''text-amber-500'', True),
      (''Los Angeles'', ''Moderate Risk'', ''text-amber-500'', True),
      (''New York'', ''Moderate Risk'', ''text-emerald-500'', False)]"
  using warning_threshold_inside_moderate
    [of "[(''New York'', 45 / 10000), (''Los Angeles'', 52 / 10000), (''Houston'', 62 / 10000)]"
        "''UnitedStates''"]
  by (simp add: CityPredictions_def rowsOf_def Array_sort_def byProbability_def
      cityRow_def classifyRisk_def Let_def)

section \<open>Properties of the fallbacks\<close>

lemma getCityPredictions_try_fails:
  assumes "fetched = Inl err \<or> (\<exists>response. fetched = Inr response \<and> \<not> ok response)"
  shows "\<exists>e. getCityPredictions_try country fetched = Inl e"
  using assms by (auto simp: getCityPredictions_try_def split: option.splits)

lemma predictDowntimeSimplified_fails:
  assumes "fetched = Inl err \<or> (\<exists>response. fetched = Inr response \<and> \<not> ok response)"
  shows "\<exists>e. predictDowntimeSimplified params fetched r1 r2 r3 = Inl e"
  using assms by (auto simp: predictDowntimeSimplified_def)

lemma getSimplifiedPrediction_returns:
  "\<exists>s'. getSimplifiedPrediction user mockMode params fetched r1 r2 r3 rnd s0 = Inr s'
        \<and> result s' \<noteq> None \<and> \<not> isLoading s'"
  by (auto simp: getSimplifiedPrediction_def getSimplifiedPrediction_try_def
      getSimplifiedPrediction_catch_def Let_def split: sum.splits)

lemma getSimplifiedPrediction_error_path:
  assumes "user" and "\<not> mockMode"
    and "predictDowntimeSimplified params fetched r1 r2 r3 = Inl e"
  shows "getSimplifiedPrediction user mockMode params fetched r1 r2 r3 rnd s0
     = Inr (s0\<lparr> isLoading := False,
                result := Some (calculateMockProbability (fallbackRequest params) rnd),
                toasts := toasts s0 @ [failedToast] \<rparr>)"
  using assms
  by (simp add: getSimplifiedPrediction_def getSimplifiedPrediction_try_def
      getSimplifiedPrediction_catch_def Let_def)

text \<open>
  Claim C8: when the external city-prediction call fails, by a network error, by the
  abort of the 10 second timer, or with a status outside 200..299, \<open>getCityPredictions\<close>
  does not throw: it returns the static table when the country is exactly Spain,
  UnitedStates or UnitedKingdom, and a result with an empty predictions map for every
  other country.
\<close>

theorem city_fallback_on_failure:
  assumes "fetched = Inl NetworkError \<or> fetched = Inl AbortError
     \<or> (\<exists>response. fetched = Inr response
           \<and> \<not> (200 \<le> status response \<and> status response \<le> 299))"
  shows "getCityPredictions country fetched = Inr
     \<lparr> predictions =
         (if country = ''Spain'' then fallbackSpain
          else if country = ''UnitedStates'' then fallbackUnitedStates
          else if country = ''UnitedKingdom'' then fallbackUnitedKingdom
          else []) \<rparr>"
proof -
  have "fetched = Inl NetworkError \<or> fetched = Inl AbortError
          \<or> (\<exists>response. fetched = Inr response \<and> \<not> ok response)"
    using assms by (simp add: ok_def)
  then have "\<exists>e. getCityPredictions_try country fetched = Inl e"
    by (auto intro: getCityPredictions_try_fails)
  then obtain e where "getCityPredictions_try country fetched = Inl e" ..
  then show ?thesis
    by (simp add: getCityPredictions_def getCityPredictions_catch_def)
qed

text \<open>
  C8 at a timeout for UnitedKingdom, a network error for Kenya, and a 503 answer for Spain
  and for the lower-case spelling spain, which has no table.
\<close>

theorem city_fallback_on_failure_witness:
  "getCityPredictions ''UnitedKingdom'' (Inl AbortError)
       = Inr \<lparr> predictions = fallbackUnitedKingdom \<rparr>
   \<and> getCityPredictions ''Kenya'' (Inl NetworkError) = Inr \<lparr> predictions = [] \<rparr>
   \<and> \<not> (200 \<le> status \<lparr> status = 503, body_text = Some ''unavailable'', body_json = None \<rparr>
          \<and> status \<lparr> status = 503, body_text = Some ''unavailable'', body_json = None \<rparr> \<le> 299)
   \<and> getCityPredictions ''Spain''
         (Inr \<lparr> status = 503, body_text = Some ''unavailable'', body_json = None \<rparr>)
       = Inr \<lparr> predictions = fallbackSpain \<rparr>
   \<and> getCityPredictions ''spain''
         (Inr \<lparr> status = 503, body_text = Some ''unavailable'', body_json = None \<rparr>)
       = Inr \<lparr> predictions = [] \<rparr>"
  using city_fallback_on_failure [of "Inl AbortError" "''UnitedKingdom''"]
    city_fallback_on_failure [of "Inl NetworkError" "''Kenya''"]
    city_fallback_on_failure
      [of "Inr \<lparr> status = 503, body_text = Some ''unavailable'', body_json = None \<rparr>" "''Spain''"]
    city_fallback_on_failure
      [of "Inr \<lparr> status = 503, body_text = Some ''unavailable'', body_json = None \<rparr>" "''spain''"]
  by simp

text \<open>
  Claim C9: \<open>getSimplifiedPrediction\<close> always returns, with a result set. When a signed-in
  user outside mock mode meets a failing external call (network error, abort, or a status
  outside 200..299), the result is the scorer's result for the substitute input with
  latency 150 ms, packet loss 2, temperature 25, humidity 60 and wind speed 5; it is a
  valid prediction result, with a probability in \<open>[0, 1]\<close> and the threshold 0.7; loading
  has ended; and the failure is reported by a toast, not by an exception.
\<close>

theorem simplified_error_path:
  "(\<exists>s'. getSimplifiedPrediction user mockMode params fetched r1 r2 r3 rnd s0 = Inr s'
        \<and> result s' \<noteq> None)
   \<and> (user \<and> \<not> mockMode
       \<and> (fetched = Inl NetworkError \<or> fetched = Inl AbortError
            \<or> (\<exists>response. fetched = Inr response
                  \<and> \<not> (200 \<le> status response \<and> status response \<le> 299)))
      \<longrightarrow> (\<exists>s'. getSimplifiedPrediction user mockMode params fetched r1 r2 r3 rnd s0 = Inr s'
            \<and> result s' = Some (calculateMockProbability
                 \<lparr> region = request_region params, latency_ms = 150, packet_loss = 2,
                   temperature = 25, wind_speed = 5, humidity = 60 \<rparr> rnd)
            \<and> \<not> isLoading s'
            \<and> toasts s' = toasts s0 @ [failedToast]
            \<and> 0 \<le> downtime_probability (the (result s'))
            \<and> downtime_probability (the (result s')) \<le> 1
            \<and> threshold (the (result s')) = 7 / 10))"
proof (intro conjI impI)
  show "\<exists>s'. getSimplifiedPrediction user mockMode params fetched r1 r2 r3 rnd s0 = Inr s'
        \<and> result s' \<noteq> None"
    using getSimplifiedPrediction_returns [of user mockMode params fetched r1 r2 r3 rnd s0]
    by blast
next
  assume a: "user \<and> \<not> mockMode
       \<and> (fetched = Inl NetworkError \<or> fetched = Inl AbortError
            \<or> (\<exists>response. fetched = Inr response
                  \<and> \<not> (200 \<le> status response \<and> status response \<le> 299)))"
  then have "fetched = Inl NetworkError \<or> fetched = Inl AbortError
          \<or> (\<exists>response. fetched = Inr response \<and> \<not> ok response)"
    by (simp add: ok_def)
  then have "\<exists>e. predictDowntimeSimplified params fetched r1 r2 r3 = Inl e"
    by (auto intro: predictDowntimeSimplified_fails)
  then obtain e where e: "predictDowntimeSimplified params fetched r1 r2 r3 = Inl e" ..
  let ?r = "calculateMockProbability (fallbackRequest params) rnd"
  have run: "getSimplifiedPrediction user mockMode params fetched r1 r2 r3 rnd s0
     = Inr (s0\<lparr> isLoading := False, result := Some ?r, toasts := toasts s0 @ [failedToast] \<rparr>)"
    using a e by (simp add: getSimplifiedPrediction_error_path)
  have fb: "fallbackRequest params = \<lparr> region = request_region params, latency_ms = 150,
      packet_loss = 2, temperature = 25, wind_speed = 5, humidity = 60 \<rparr>"
    by (simp add: fallbackRequest_def)
  have th: "threshold ?r = 7 / 10"
    by (simp add: calculateMockProbability_def Let_def)
  show "\<exists>s'. getSimplifiedPrediction user mockMode params fetched r1 r2 r3 rnd s0 = Inr s'
            \<and> result s' = Some (calculateMockProbability
                 \<lparr> region = request_region params, latency_ms = 150, packet_loss = 2,
                   temperature = 25, wind_speed = 5, humidity = 60 \<rparr> rnd)
            \<and> \<not> isLoading s'
            \<and> toasts s' = toasts s0 @ [failedToast]
            \<and> 0 \<le> downtime_probability (the (result s'))
            \<and> downtime_probability (the (result s')) \<le> 1
            \<and> threshold (the (result s')) = 7 / 10"
    using run th downtime_probability_bounds [of "fallbackRequest params" rnd]
    by (simp add: fb)
qed

text \<open>
  C9 at a signed-in user outside mock mode whose request for Nairobi meets a network
  error, from the initial state of the hook, with a random draw of 0.5.
\<close>

theorem simplified_error_path_witness:
  "\<exists>s'. getSimplifiedPrediction True False
      \<lparr> timestamp = ''2025-01-01T00:00:00Z'', city = ''Nairobi'',
        country_code = ''KE'', metric_bgp = 1 / 2, calc_bgp_mad = 0, calc_avg_mad = 0,
        request_region = ''kenya'', network_quality = NQ_poor,
        weather_condition = WC_stormy \<rparr>
      (Inl NetworkError :: FetchError + unit Response) (1 / 2) (1 / 2) (1 / 2) (1 / 2)
      \<lparr> isLoading = False, result = None, toasts = [] \<rparr> = Inr s'
    \<and> result s' = Some (calculateMockProbability
          \<lparr> region = ''kenya'', latency_ms = 150, packet_loss = 2,
            temperature = 25, wind_speed = 5, humidity = 60 \<rparr> (1 / 2))
    \<and> \<not> isLoading s'
    \<and> toasts s' = [failedToast]"
  using simplified_error_path [of True False
      "\<lparr> timestamp = ''2025-01-01T00:00:00Z'', city = ''Nairobi'',
        country_code = ''KE'', metric_bgp = 1 / 2, calc_bgp_mad = 0, calc_avg_mad = 0,
        request_region = ''kenya'', network_quality = NQ_poor,
        weather_condition = WC_stormy \<rparr>"
      "Inl NetworkError :: FetchError + unit Response" "1 / 2" "1 / 2" "1 / 2" "1 / 2"
      "\<lparr> isLoading = False, result = None, toasts = [] \<rparr>"]
  by auto

end
